theory Spec2Isabelle
  imports Main "HOL-Library.Sublist" "HOL-Library.Word"
begin

section \<open>The hostpath CSI driver: messages\<close>

text \<open>
  The driver (package \<open>hostpathcsi\<close>) implements three gRPC services of the Container
  Storage Interface on top of the host file system. The request and response messages
  come from the CSI library; only the fields the handlers read or write are kept.
  A Go pointer to a message that may be absent is an \<open>option\<close>.
\<close>

record CapacityRange =
  RequiredBytes :: "64 word"
  LimitBytes :: "64 word"

record CreateVolumeRequest =
  Name :: string
  CapacityRange :: "CapacityRange option"
  Parameters :: "string \<rightharpoonup> string"

record Volume =
  VolumeId :: string
  CapacityBytes :: "64 word"
  VolumeContext :: "string \<rightharpoonup> string"

record DeleteVolumeRequest =
  VolumeId :: string

record NodePublishVolumeRequest =
  VolumeId :: string
  TargetPath :: string

record NodeUnpublishVolumeRequest =
  VolumeId :: string
  TargetPath :: string

text \<open>
  The RPC types a capability can name, as version 1.10.0 of the CSI library declares
  them. A capability entry of a response is represented by the RPC type it carries.
\<close>

datatype ControllerServiceCapability_RPC_Type =
    Controller_UNKNOWN
  | CREATE_DELETE_VOLUME
  | PUBLISH_UNPUBLISH_VOLUME
  | LIST_VOLUMES
  | GET_CAPACITY
  | CREATE_DELETE_SNAPSHOT
  | LIST_SNAPSHOTS
  | CLONE_VOLUME
  | PUBLISH_READONLY
  | Controller_EXPAND_VOLUME
  | LIST_VOLUMES_PUBLISHED_NODES
  | Controller_VOLUME_CONDITION
  | GET_VOLUME
  | Controller_SINGLE_NODE_MULTI_WRITER
  | MODIFY_VOLUME

datatype NodeServiceCapability_RPC_Type =
    Node_UNKNOWN
  | STAGE_UNSTAGE_VOLUME
  | GET_VOLUME_STATS
  | Node_EXPAND_VOLUME
  | Node_VOLUME_CONDITION
  | Node_SINGLE_NODE_MULTI_WRITER
  | VOLUME_MOUNT_GROUP

text \<open>
  A handler returns a response and a nil error, or a nil response and an error, or it
  panics (a nil pointer dereference); the gRPC server installs no recovery, so a panic
  ends the process. The handlers build their errors with \<open>fmt.Errorf\<close>: an error is
  identified here by the place that builds it and the errno it wraps.
\<close>

datatype errno = ENOENT | ENOTDIR | EEXIST | EINVAL | ELOOP | ENAMETOOLONG | ENOTEMPTY | EBUSY

datatype error =
    CreateDirFailed errno
  | DeleteDirFailed errno
  | NotSupported
  | SourceMissing
  | ParentDirFailed errno
  | RemoveTargetFailed errno
  | SymlinkFailed errno
  | CheckTargetFailed errno

datatype 'a outcome = Ok 'a | Err error | Panic

section \<open>The host file system\<close>

text \<open>
  The handlers keep no state of their own: everything they remember is in the host file
  system, which they reach through the \<open>os\<close> and \<open>path/filepath\<close> packages of Go 1.22
  (the version \<open>go.mod\<close> names) on Linux. This section models those calls.
  The name space is a map from locations (the names from the root down) to nodes:
  directories, other files, and symbolic links with their target text.
  The driver's containers run privileged, so permissions are not modelled, and neither
  are full disks or I/O errors: a call fails only for the shape of the name space or of
  the path. The limits are those of Linux: 255 bytes for a name, 4095 for a path, 40
  symbolic links in one resolution. The working directory of the process is taken to be
  the root, which is always a directory.
\<close>

datatype node = Dir | File | Link string

type_synonym loc = "string list"

type_synonym fs = "loc \<Rightarrow> node option"

text \<open>The non-empty elements of a path between its separators.\<close>

function elems :: "string \<Rightarrow> string list" where
  "elems [] = []"
| "elems (c # cs) =
     (if c = CHR ''/'' then elems cs
      else takeWhile (\<lambda>x. x \<noteq> CHR ''/'') (c # cs) # elems (dropWhile (\<lambda>x. x \<noteq> CHR ''/'') cs))"
  by pat_completeness auto
termination
  by (relation "measure length") (auto simp: length_dropWhile_le less_Suc_eq_le)

text \<open>
  Path resolution treats a trailing separator like a final \<open>.\<close> element: the name before
  it has to lead to a directory.
\<close>

definition parts :: "string \<Rightarrow> string list" where
  "parts p = elems p @ (if elems p \<noteq> [] \<and> last p = CHR ''/'' then [''.''] else [])"

definition cwd :: loc where
  "cwd = []"

text \<open>Where the resolution of a path begins: at the root, or at the directory at hand.\<close>

definition origin :: "string \<Rightarrow> loc \<Rightarrow> loc" where
  "origin p cur = (case p of [] \<Rightarrow> cur | c # _ \<Rightarrow> if c = CHR ''/'' then [] else cur)"

text \<open>
  \<open>walk fs n cur cs follow\<close> resolves the elements \<open>cs\<close> from the directory \<open>cur\<close>. It
  may still traverse \<open>n\<close> symbolic links (Linux allows 40 in one resolution); a link in
  the last position is traversed only when \<open>follow\<close> is set or more elements follow.
  The result is the location found, its node, and the traversals left.
\<close>

function walk :: "fs \<Rightarrow> nat \<Rightarrow> loc \<Rightarrow> string list \<Rightarrow> bool \<Rightarrow> errno + (loc \<times> node \<times> nat)" where
  "walk fs n cur [] follow = Inr (cur, Dir, n)"
| "walk fs n cur (c # cs) follow =
     (if c = ''.'' then walk fs n cur cs follow
      else if c = ''..'' then walk fs n (butlast cur) cs follow
      else if 255 < length c then Inl ENAMETOOLONG
      else (case fs (cur @ [c]) of
          None \<Rightarrow> Inl ENOENT
        | Some Dir \<Rightarrow> walk fs n (cur @ [c]) cs follow
        | Some File \<Rightarrow> if cs = [] then Inr (cur @ [c], File, n) else Inl ENOTDIR
        | Some (Link t) \<Rightarrow>
            if cs = [] \<and> \<not> follow then Inr (cur @ [c], Link t, n)
            else (case n of
                0 \<Rightarrow> Inl ELOOP
              | Suc m \<Rightarrow>
                  if t = [] then Inl ENOENT
                  else walk fs m (origin t cur) (parts t @ cs) follow)))"
  by pat_completeness auto
termination
  by (relation "measures [\<lambda>(fs, n, cur, cs, follow). n, \<lambda>(fs, n, cur, cs, follow). length cs]") auto

text \<open>What every system call checks of a path before resolving it.\<close>

definition path_errno :: "string \<Rightarrow> errno option" where
  "path_errno p =
     (if p = [] then Some ENOENT
      else if CHR 0x00 \<in> set p then Some EINVAL
      else if 4096 \<le> length p then Some ENAMETOOLONG
      else None)"

definition namei :: "fs \<Rightarrow> string \<Rightarrow> bool \<Rightarrow> errno + (loc \<times> node \<times> nat)" where
  "namei fs p follow =
     (case path_errno p of Some e \<Rightarrow> Inl e | None \<Rightarrow> walk fs 40 (origin p cwd) (parts p) follow)"

definition stat :: "fs \<Rightarrow> string \<Rightarrow> errno + node" where
  "stat fs p = (case namei fs p True of Inl e \<Rightarrow> Inl e | Inr (_, nd, _) \<Rightarrow> Inr nd)"

definition lstat :: "fs \<Rightarrow> string \<Rightarrow> errno + node" where
  "lstat fs p = (case namei fs p False of Inl e \<Rightarrow> Inl e | Inr (_, nd, _) \<Rightarrow> Inr nd)"


text \<open>
  The calls that create or remove a name resolve the directory of the path's last
  element and then act on that element itself, never through a link it may be.
\<close>

definition walk_dir :: "fs \<Rightarrow> string \<Rightarrow> errno + (loc \<times> node \<times> nat)" where
  "walk_dir fs p = walk fs 40 (origin p cwd) (butlast (elems p) @ [''.'']) True"

definition mkdir :: "fs \<Rightarrow> string \<Rightarrow> errno option \<times> fs" where
  "mkdir fs p =
     (case path_errno p of
        Some e \<Rightarrow> (Some e, fs)
      | None \<Rightarrow>
          if elems p = [] then (Some EEXIST, fs)
          else (case walk_dir fs p of
              Inl e \<Rightarrow> (Some e, fs)
            | Inr (d, _) \<Rightarrow>
                let b = last (elems p) in
                if b = ''.'' \<or> b = ''..'' then (Some EEXIST, fs)
                else if 255 < length b then (Some ENAMETOOLONG, fs)
                else if fs (d @ [b]) \<noteq> None then (Some EEXIST, fs)
                else (None, fs(d @ [b] \<mapsto> Dir))))"


subsection \<open>os.RemoveAll\<close>

text \<open>
  \<open>purge l\<close> removes the node at \<open>l\<close> and everything below it; \<open>purge_below l\<close> keeps
  the node and removes what is below it.
\<close>

definition purge :: "loc \<Rightarrow> fs \<Rightarrow> fs" where
  "purge l fs = (\<lambda>q. if prefix l q then None else fs q)"

definition purge_below :: "loc \<Rightarrow> fs \<Rightarrow> fs" where
  "purge_below l fs = (\<lambda>q. if strict_prefix l q then None else fs q)"

definition endsWithDot :: "string \<Rightarrow> bool" where
  "endsWithDot path =
     (path = ''.'' \<or>
      (2 \<le> length path \<and> path ! (length path - 1) = CHR ''.''
       \<and> path ! (length path - 2) = CHR ''/''))"

text \<open>
  \<open>os.RemoveAll\<close> returns nil for the empty path, refuses a path whose text ends in
  a \<open>.\<close> element with EINVAL before it looks at the file system, and returns nil when
  the path does not exist. Otherwise it removes what the last element names in its
  directory, with everything below. When the last element is \<open>.\<close> (before trailing
  separators) or \<open>..\<close>, or the path is the root, it empties the directory named and
  then fails to remove the directory itself.
\<close>

definition RemoveAll :: "fs \<Rightarrow> string \<Rightarrow> errno option \<times> fs" where
  "RemoveAll fs path =
     (if path = [] then (None, fs)
      else if endsWithDot path then (Some EINVAL, fs)
      else (case path_errno path of
        Some e \<Rightarrow> (Some e, fs)
      | None \<Rightarrow>
          if elems path = [] then (Some EBUSY, purge_below [] fs)
          else (case walk_dir fs path of
              Inl e \<Rightarrow> if e = ENOENT then (None, fs) else (Some e, fs)
            | Inr (d, _) \<Rightarrow>
                let b = last (elems path) in
                if b = ''.'' then (Some EINVAL, purge_below d fs)
                else if b = ''..'' then (Some ENOTEMPTY, purge_below (butlast d) fs)
                else if 255 < length b then (Some ENAMETOOLONG, fs)
                else (None, purge (d @ [b]) fs))))"

subsection \<open>os.MkdirAll\<close>

text \<open>
  The parent that \<open>os.MkdirAll\<close> recurses on: the path without its trailing separators,
  its last element and the separator before that.
\<close>

definition parent_of :: "string \<Rightarrow> string" where
  "parent_of path =
     rev (drop 1 (dropWhile (\<lambda>c. c \<noteq> CHR ''/'') (dropWhile (\<lambda>c. c = CHR ''/'') (rev path))))"

text \<open>
  \<open>os.MkdirAll\<close>: nothing to do when the path is a directory, ENOTDIR when it is
  something else; otherwise the parent first, then \<open>mkdir\<close>, whose failure is forgiven
  when the path turns out to be a directory. Nothing is undone when a step fails.
\<close>

function MkdirAll :: "fs \<Rightarrow> string \<Rightarrow> errno option \<times> fs" where
  "MkdirAll fs path =
     (case stat fs path of
        Inr nd \<Rightarrow> if nd = Dir then (None, fs) else (Some ENOTDIR, fs)
      | Inl _ \<Rightarrow>
          (case (if parent_of path \<noteq> [] then MkdirAll fs (parent_of path) else (None, fs)) of
             (Some e, fs') \<Rightarrow> (Some e, fs')
           | (None, fs') \<Rightarrow>
               (case mkdir fs' path of
                  (None, fs'') \<Rightarrow> (None, fs'')
                | (Some e, _) \<Rightarrow>
                    (case lstat fs' path of
                       Inr Dir \<Rightarrow> (None, fs')
                     | _ \<Rightarrow> (Some e, fs')))))"
  by pat_completeness auto
termination
proof (relation "measure (\<lambda>(fs, path). length path)")
  show "wf (measure (\<lambda>(fs, path). length path))"
    by simp
next
  fix fs :: fs and path :: string and e :: errno
  assume a: "parent_of path \<noteq> []"
  define ys where "ys = dropWhile (\<lambda>c. c = CHR ''/'') (rev path)"
  define xs where "xs = dropWhile (\<lambda>c. c \<noteq> CHR ''/'') ys"
  have p: "parent_of path = rev (drop 1 xs)"
    by (simp add: parent_of_def xs_def ys_def)
  with a have "drop 1 xs \<noteq> []"
    by simp
  then have "length (drop 1 xs) < length xs"
    by (cases xs) simp_all
  moreover have "length xs \<le> length ys"
    unfolding xs_def by (rule length_dropWhile_le)
  moreover have "length ys \<le> length (rev path)"
    unfolding ys_def by (rule length_dropWhile_le)
  ultimately have "length (parent_of path) < length path"
    by (simp add: p)
  then show "((fs, parent_of path), (fs, path)) \<in> measure (\<lambda>(fs, path). length path)"
    by simp
qed

declare MkdirAll.simps [simp del]

subsection \<open>filepath.Dir\<close>





section \<open>The controller service\<close>

definition CreateVolume :: "fs \<Rightarrow> CreateVolumeRequest \<Rightarrow> Volume outcome \<times> fs" where
  "CreateVolume fs req =
     (let volumePath = ''/tmp/csi/hostpath/'' @ Name req in
      case MkdirAll fs volumePath of
        (Some e, fs') \<Rightarrow> (Err (CreateDirFailed e), fs')
      | (None, fs') \<Rightarrow>
          (case CapacityRange req of
             None \<Rightarrow> (Panic, fs')
           | Some r \<Rightarrow>
               (Ok \<lparr>Volume.VolumeId = Name req, CapacityBytes = RequiredBytes r,
                    VolumeContext = Parameters req\<rparr>, fs')))"

definition DeleteVolume :: "fs \<Rightarrow> DeleteVolumeRequest \<Rightarrow> unit outcome \<times> fs" where
  "DeleteVolume fs req =
     (let volumePath = ''/tmp/csi/hostpath/'' @ DeleteVolumeRequest.VolumeId req in
      case RemoveAll fs volumePath of
        (Some e, fs') \<Rightarrow> (Err (DeleteDirFailed e), fs')
      | (None, fs') \<Rightarrow> (Ok (), fs'))"

definition ControllerPublishVolume :: "unit outcome" where
  "ControllerPublishVolume = Err NotSupported"

definition ControllerUnpublishVolume :: "unit outcome" where
  "ControllerUnpublishVolume = Err NotSupported"

definition ControllerGetCapabilities :: "ControllerServiceCapability_RPC_Type list outcome" where
  "ControllerGetCapabilities = Ok [CREATE_DELETE_VOLUME]"

section \<open>The node service\<close>




definition NodeGetCapabilities :: "NodeServiceCapability_RPC_Type list outcome" where
  "NodeGetCapabilities = Ok [Node_UNKNOWN]"

definition NodeStageVolume :: "unit outcome" where
  "NodeStageVolume = Ok ()"

definition NodeUnstageVolume :: "unit outcome" where
  "NodeUnstageVolume = Ok ()"

section \<open>Paths and hosts\<close>

text \<open>
  What the orchestrator normally sends: names that are single path elements, and
  absolute paths made of such names. \<open>path_of cs\<close> is the path \<open>/c1/.../cn\<close>.
\<close>

definition ordinary :: "string \<Rightarrow> bool" where
  "ordinary c =
     (c \<noteq> [] \<and> CHR ''/'' \<notin> set c \<and> CHR 0x00 \<notin> set c \<and> c \<noteq> ''.'' \<and> c \<noteq> ''..''
      \<and> length c \<le> 255)"

definition path_of :: "string list \<Rightarrow> string" where
  "path_of cs = concat (map (\<lambda>c. CHR ''/'' # c) cs)"

text \<open>
  \<open>dirs_to fs cur cs\<close>: from \<open>cur\<close>, every name of \<open>cs\<close> leads to a directory (not
  through a link). A path is \<open>plain\<close> on a host when it is made of ordinary names and
  the directory of its last name is reached that way.
\<close>

fun dirs_to :: "fs \<Rightarrow> loc \<Rightarrow> string list \<Rightarrow> bool" where
  "dirs_to fs cur [] = True"
| "dirs_to fs cur (c # cs) = (fs (cur @ [c]) = Some Dir \<and> dirs_to fs (cur @ [c]) cs)"

definition plain :: "fs \<Rightarrow> string list \<Rightarrow> bool" where
  "plain fs cs =
     (cs \<noteq> [] \<and> list_all ordinary cs \<and> dirs_to fs [] (butlast cs) \<and> length (path_of cs) < 4096)"

text \<open>The backing directory of a volume, and a volume that has been provisioned.\<close>

definition backing :: "string \<Rightarrow> loc" where
  "backing vid = [''tmp'', ''csi'', ''hostpath'', vid]"



text \<open>Hosts and requests to run the handlers on.\<close>

definition fresh_host :: fs where
  "fresh_host = Map.empty([''tmp''] \<mapsto> Dir)"

definition host_v1 :: fs where
  "host_v1 = fresh_host([''tmp'', ''csi''] \<mapsto> Dir, [''tmp'', ''csi'', ''hostpath''] \<mapsto> Dir,
     [''tmp'', ''csi'', ''hostpath'', ''v1''] \<mapsto> Dir)"


definition base_dir :: loc where
  "base_dir = [''tmp'', ''csi'', ''hostpath'']"

definition request :: "string \<Rightarrow> 64 word \<Rightarrow> 64 word \<Rightarrow> CreateVolumeRequest" where
  "request name required limit =
     \<lparr>Name = name, CapacityRange = Some \<lparr>RequiredBytes = required, LimitBytes = limit\<rparr>,
      Parameters = Map.empty\<rparr>"

definition publish :: "string \<Rightarrow> string \<Rightarrow> NodePublishVolumeRequest" where
  "publish vid target =
     \<lparr>NodePublishVolumeRequest.VolumeId = vid, NodePublishVolumeRequest.TargetPath = target\<rparr>"


section \<open>Path resolution\<close>




lemma purge_le: "purge l fs \<subseteq>\<^sub>m fs"
  by (auto simp: purge_def map_le_def)














lemma elems_sep: "elems (CHR ''/'' # r) = elems r"
  by simp

lemma elems_name:
  assumes "c \<noteq> []" "CHR ''/'' \<notin> set c" "r = [] \<or> hd r = CHR ''/''"
  shows "elems (c @ r) = c # elems r"
proof -
  from assms obtain x c' where c: "c = x # c'" by (cases c) auto
  with assms have x: "x \<noteq> CHR ''/''" and c': "\<forall>y\<in>set c'. y \<noteq> CHR ''/''" by auto
  have tw: "takeWhile (\<lambda>x. x \<noteq> CHR ''/'') (c' @ r) = c'"
    using c' assms(3) by (cases r) (auto simp: takeWhile_append2)
  have dw: "dropWhile (\<lambda>x. x \<noteq> CHR ''/'') (c' @ r) = r"
    using c' assms(3) by (cases r) (auto simp: dropWhile_append2)
  show ?thesis
    using x tw dw by (simp add: c)
qed

lemma path_of_Nil [simp]: "path_of [] = []"
  by (simp add: path_of_def)

lemma path_of_Cons [simp]: "path_of (c # cs) = CHR ''/'' # c @ path_of cs"
  by (simp add: path_of_def)


lemma path_of_hd: "path_of cs = [] \<or> hd (path_of cs) = CHR ''/''"
  by (cases cs) simp_all

lemma elems_path_of_gen:
  "list_all ordinary cs \<Longrightarrow> r = [] \<or> hd r = CHR ''/'' \<Longrightarrow> elems (path_of cs @ r) = cs @ elems r"
proof (induction cs)
  case Nil
  then show ?case by simp
next
  case (Cons c cs)
  have "path_of cs @ r = [] \<or> hd (path_of cs @ r) = CHR ''/''"
    using Cons.prems(2) path_of_hd [of cs] by (cases "path_of cs") auto
  then have "elems (c @ path_of cs @ r) = c # elems (path_of cs @ r)"
    using Cons.prems(1) by (intro elems_name) (auto simp: ordinary_def)
  with Cons show ?case by simp
qed

lemma elems_path_of: "list_all ordinary cs \<Longrightarrow> elems (path_of cs) = cs"
  using elems_path_of_gen [of cs "[]"] by simp


lemma last_path_of:
  "cs \<noteq> [] \<Longrightarrow> list_all ordinary cs \<Longrightarrow> last (path_of cs) = last (last cs) \<and> path_of cs \<noteq> []"
proof (induction cs)
  case Nil
  then show ?case by simp
next
  case (Cons c cs)
  then show ?case by (cases cs) (auto simp: ordinary_def)
qed

lemma last_path_of_no_sep:
  assumes "cs \<noteq> []" "list_all ordinary cs"
  shows "last (path_of cs) \<noteq> CHR ''/''"
proof -
  from assms have "ordinary (last cs)"
    by (simp add: list_all_iff)
  then have "last (last cs) \<in> set (last cs)" "CHR ''/'' \<notin> set (last cs)"
    by (auto simp: ordinary_def)
  then show ?thesis using last_path_of [OF assms] by metis
qed

lemma parts_path_of: "cs \<noteq> [] \<Longrightarrow> list_all ordinary cs \<Longrightarrow> parts (path_of cs) = cs"
  by (simp add: parts_def elems_path_of last_path_of_no_sep)

lemma origin_path_of: "cs \<noteq> [] \<Longrightarrow> origin (path_of cs) cur = []"
  by (cases cs) (simp_all add: origin_def)

lemma set_path_of: "set (path_of cs) = (if cs = [] then {} else insert (CHR ''/'') (\<Union> (set ` set cs)))"
  by (induction cs) auto

lemma path_errno_path_of:
  "cs \<noteq> [] \<Longrightarrow> list_all ordinary cs \<Longrightarrow> length (path_of cs) < 4096 \<Longrightarrow> path_errno (path_of cs) = None"
  by (cases cs) (auto simp: path_errno_def set_path_of list_all_iff ordinary_def)

lemma walk_plain:
  "list_all ordinary cs \<Longrightarrow> dirs_to fs cur cs \<Longrightarrow>
   walk fs n cur (cs @ rest) fl = walk fs n (cur @ cs) rest fl"
  by (induction cs arbitrary: cur) (auto simp: ordinary_def)

lemma dirs_to_append:
  "dirs_to fs cur (xs @ ys) = (dirs_to fs cur xs \<and> dirs_to fs (cur @ xs) ys)"
  by (induction xs arbitrary: cur) auto










lemma namei_plain:
  assumes "plain fs cs"
  shows "namei fs (path_of cs) fl = walk fs 40 (butlast cs) [last cs] fl"
proof -
  from assms have ne: "cs \<noteq> []" and o: "list_all ordinary cs" and d: "dirs_to fs [] (butlast cs)"
    and l: "length (path_of cs) < 4096"
    by (simp_all add: plain_def)
  have o': "list_all ordinary (butlast cs)"
    using o by (auto simp: list_all_iff dest: in_set_butlastD)
  have "walk fs 40 [] (butlast cs @ [last cs]) fl = walk fs 40 ([] @ butlast cs) [last cs] fl"
    using o' d by (rule walk_plain)
  then show ?thesis
    using ne by (simp add: namei_def path_errno_path_of [OF ne o l] origin_path_of parts_path_of [OF ne o])
qed

lemma ordinary_last: "plain fs cs \<Longrightarrow> ordinary (last cs)"
  by (simp add: plain_def list_all_iff)

lemma butlast_last: "plain fs cs \<Longrightarrow> butlast cs @ [last cs] = cs"
  by (simp add: plain_def)



lemma stat_plain_None:
  assumes "plain fs cs" "fs cs = None"
  shows "stat fs (path_of cs) = Inl ENOENT"
  using ordinary_last [OF assms(1)] butlast_last [OF assms(1)] assms(2)
  by (auto simp: stat_def namei_plain [OF assms(1)] ordinary_def)






section \<open>What the file operations do\<close>















section \<open>Running the handlers\<close>

lemma request_sel [simp]:
  "Name (request name required limit) = name"
  "CapacityRange (request name required limit) = Some \<lparr>RequiredBytes = required, LimitBytes = limit\<rparr>"
  "Parameters (request name required limit) = Map.empty"
  by (simp_all add: request_def)

lemmas eval_simps = namei_def stat_def lstat_def path_errno_def origin_def parts_def cwd_def
  walk_dir_def mkdir_def parent_of_def fresh_host_def host_v1_def MkdirAll.simps Let_def


lemma mkdir_base_fresh: "fst (MkdirAll fresh_host ''/tmp/csi/hostpath/'') = None"
  by (simp add: eval_simps)

lemma publish_sel [simp]:
  "NodePublishVolumeRequest.VolumeId (publish vid target) = vid"
  "NodePublishVolumeRequest.TargetPath (publish vid target) = target"
  by (simp_all add: publish_def)






section \<open>CreateVolume\<close>

lemma CreateVolume_Ok:
  "CreateVolume fs req = (Ok v, fs') \<Longrightarrow>
   MkdirAll fs (''/tmp/csi/hostpath/'' @ Name req) = (None, fs')
   \<and> (\<exists>r. CapacityRange req = Some r
        \<and> v = \<lparr>Volume.VolumeId = Name req, CapacityBytes = RequiredBytes r,
                VolumeContext = Parameters req\<rparr>)"
  by (auto simp: CreateVolume_def Let_def split: prod.splits option.splits)




text \<open>
  C3 says that every request is answered without a crash, with the required bytes
  echoed, also a request that carries no capacity range at all. The handler reads
  \<open>req.CapacityRange.RequiredBytes\<close> through the pointer without testing it: for a
  request with no capacity range it creates the directory and then panics, as here for
  the volume \<open>v1\<close> on a fresh host. With a range present the required bytes are echoed,
  zero included.
\<close>

theorem CreateVolume_nil_range_panics:
  "CreateVolume fresh_host \<lparr>Name = ''v1'', CapacityRange = None, Parameters = Map.empty\<rparr> =
     (Panic, host_v1)"
  by (simp add: CreateVolume_def eval_simps)

lemma CreateVolume_nil_range_no_response:
  "CapacityRange req = None \<Longrightarrow> fst (CreateVolume fs req) \<noteq> Ok v"
  by (auto simp: CreateVolume_def Let_def split: prod.splits option.splits)

lemma CreateVolume_echoes:
  "CreateVolume fs req = (Ok v, fs') \<Longrightarrow> CapacityRange req = Some r \<Longrightarrow> CapacityBytes v = RequiredBytes r"
  by (auto simp: CreateVolume_def Let_def split: prod.splits option.splits)

text \<open>
  C4, as stated: a request with an empty name, or with a required size above the limit,
  fails with an invalid-argument error and no volume is created. Both are accepted: the
  empty name yields the id \<open>''\<close> (its directory is the base directory itself), and the
  inverted range yields a volume of the required size, whose directory exists afterwards.
\<close>

theorem CreateVolume_accepts_malformed:
  "fst (CreateVolume fresh_host (request [] 5 0)) =
     Ok \<lparr>Volume.VolumeId = [], CapacityBytes = 5, VolumeContext = Map.empty\<rparr>
   \<and> fst (CreateVolume fresh_host (request ''v1'' 10 5)) =
     Ok \<lparr>Volume.VolumeId = ''v1'', CapacityBytes = 10, VolumeContext = Map.empty\<rparr>
   \<and> snd (CreateVolume fresh_host (request ''v1'' 10 5)) (backing ''v1'') = Some Dir"
  by (simp add: CreateVolume_def eval_simps backing_def)

text \<open>
  C4, amended: CreateVolume does not validate the request. Its only error is a failure
  to create the directory \<open>/tmp/csi/hostpath/<name>\<close>; whenever that succeeds and a
  capacity range is present the request is accepted, the empty name included, and the
  answer echoes the name and the required bytes; the limit is never read.
\<close>

theorem CreateVolume_no_validation:
  "(\<forall>e. fst (CreateVolume fs req) = Err e \<longrightarrow>
      (\<exists>n. e = CreateDirFailed n \<and> fst (MkdirAll fs (''/tmp/csi/hostpath/'' @ Name req)) = Some n))
   \<and> (CapacityRange req = Some r \<longrightarrow> fst (MkdirAll fs (''/tmp/csi/hostpath/'' @ Name req)) = None \<longrightarrow>
        fst (CreateVolume fs req) =
          Ok \<lparr>Volume.VolumeId = Name req, CapacityBytes = RequiredBytes r,
              VolumeContext = Parameters req\<rparr>)
   \<and> (CapacityRange req = Some r \<longrightarrow>
        CreateVolume fs (req\<lparr>CapacityRange := Some (r\<lparr>LimitBytes := l\<rparr>)\<rparr>) = CreateVolume fs req)"
  by (auto simp: CreateVolume_def Let_def split: prod.splits option.splits)

theorem CreateVolume_no_validation_witness:
  "CapacityRange (request [] 10 5) = Some \<lparr>RequiredBytes = 10, LimitBytes = 5\<rparr>
   \<and> fst (MkdirAll fresh_host (''/tmp/csi/hostpath/'' @ Name (request [] 10 5))) = None
   \<and> fst (CreateVolume fresh_host (request [] 10 5)) =
        Ok \<lparr>Volume.VolumeId = [], CapacityBytes = 10, VolumeContext = Map.empty\<rparr>
   \<and> CreateVolume fresh_host (request [] 10 0) = CreateVolume fresh_host (request [] 10 5)"
  using CreateVolume_no_validation [of fresh_host "request [] 10 5" "\<lparr>RequiredBytes = 10, LimitBytes = 5\<rparr>" 0]
    mkdir_base_fresh
  by (simp add: request_def)

section \<open>DeleteVolume\<close>




text \<open>
  C10: DeleteVolume computes the path as the base directory followed by the volume id,
  so for the empty id the path is \<open>/tmp/csi/hostpath/\<close>, the base directory itself. On
  a host where \<open>/tmp\<close> and \<open>/tmp/csi\<close> are directories the call returns success and has
  removed the base directory with everything below it: nothing is left at or below the
  backing directory of any volume, and the backing path of every volume with an ordinary
  id no longer exists.
\<close>

theorem DeleteVolume_empty_id:
  assumes "fs [''tmp''] = Some Dir" "fs [''tmp'', ''csi''] = Some Dir"
  shows "''/tmp/csi/hostpath/'' @ DeleteVolumeRequest.VolumeId \<lparr>DeleteVolumeRequest.VolumeId = []\<rparr> = ''/tmp/csi/hostpath/''
    \<and> DeleteVolume fs \<lparr>DeleteVolumeRequest.VolumeId = []\<rparr> = (Ok (), purge base_dir fs)
    \<and> purge base_dir fs (backing vid @ below) = None
    \<and> (ordinary vid \<longrightarrow> stat (purge base_dir fs) (''/tmp/csi/hostpath/'' @ vid) = Inl ENOENT)"
proof (intro conjI impI)
  show "DeleteVolume fs \<lparr>DeleteVolumeRequest.VolumeId = []\<rparr> = (Ok (), purge base_dir fs)"
    using assms
    by (simp add: DeleteVolume_def RemoveAll_def endsWithDot_def base_dir_def path_errno_def
        walk_dir_def origin_def)
next
  show "purge base_dir fs (backing vid @ below) = None"
    by (simp add: purge_def base_dir_def backing_def)
next
  assume "ordinary vid"
  then have o: "CHR 0x00 \<notin> set vid" "length vid \<le> 255"
    by (simp_all add: ordinary_def)
  have p: "purge base_dir fs [''tmp''] = Some Dir" "purge base_dir fs [''tmp'', ''csi''] = Some Dir"
    "purge base_dir fs [''tmp'', ''csi'', ''hostpath''] = None"
    using assms by (simp_all add: purge_def base_dir_def)
  show "stat (purge base_dir fs) (''/tmp/csi/hostpath/'' @ vid) = Inl ENOENT"
    using o p by (simp add: stat_def namei_def path_errno_def origin_def parts_def)
qed simp

theorem DeleteVolume_empty_id_witness:
  "host_v1 [''tmp''] = Some Dir \<and> host_v1 [''tmp'', ''csi''] = Some Dir
   \<and> ordinary ''v1'' \<and> host_v1 (backing ''v1'') = Some Dir
   \<and> DeleteVolume host_v1 \<lparr>DeleteVolumeRequest.VolumeId = []\<rparr> = (Ok (), purge base_dir host_v1)
   \<and> purge base_dir host_v1 (backing ''v1'') = None
   \<and> stat (purge base_dir host_v1) ''/tmp/csi/hostpath/v1'' = Inl ENOENT"
  using DeleteVolume_empty_id [of host_v1 "''v1''" "[]"]
  by (simp add: host_v1_def fresh_host_def ordinary_def backing_def)

section \<open>NodeUnpublishVolume\<close>



section \<open>Failed calls\<close>






section \<open>NodePublishVolume\<close>











section \<open>Properties of the capability calls\<close>

text \<open>
  C9, as stated: NodeGetCapabilities returns the empty capability set. The handler
  returns a list with one entry, of RPC type UNKNOWN, so the list is not empty.
\<close>

theorem NodeGetCapabilities_not_empty: "NodeGetCapabilities \<noteq> Ok []"
  by (simp add: NodeGetCapabilities_def)

text \<open>
  C9, amended: NodeGetCapabilities always succeeds and returns exactly one capability
  entry, whose RPC type is UNKNOWN, so STAGE_UNSTAGE_VOLUME is never advertised;
  ControllerGetCapabilities returns exactly the single capability CREATE_DELETE_VOLUME.
\<close>

theorem capabilities_returned:
  "NodeGetCapabilities = Ok [Node_UNKNOWN]
   \<and> (\<exists>caps. NodeGetCapabilities = Ok caps \<and> STAGE_UNSTAGE_VOLUME \<notin> set caps)
   \<and> ControllerGetCapabilities = Ok [CREATE_DELETE_VOLUME]"
  by (simp add: NodeGetCapabilities_def ControllerGetCapabilities_def)

end
